theory Spec2Isabelle
  imports Main
begin

section \<open>JavaScript values\<close>

text \<open>
  The client handles untyped values (\<^verbatim>\<open>body?: any\<close>, \<^verbatim>\<open>let data: any\<close>), so the model has
  one type of JavaScript values. Numbers are integers or NaN: the code only ever asks whether
  a number is truthy. A plain object is the list of its own properties, keys unique.
  A \<^verbatim>\<open>FormData\<close> is the list of its entries, in the order they were appended.
\<close>

datatype js_file = File (file_name: string) (file_bytes: string)

datatype form_value = FFile js_file | FString string

datatype jsval =
    JUndefined
  | JNull
  | JBool bool
  | JNum int
  | JNaN
  | JStr string
  | JArr "jsval list"
  | JObj "(string \<times> jsval) list"
  | JFormData "(string \<times> form_value) list"

text \<open>A thrown value: an \<^verbatim>\<open>Error\<close> instance with its message, or anything else.\<close>

datatype thrown = ErrorObj string | NonError

text \<open>ToBoolean, as \<^verbatim>\<open>if (body)\<close> and \<^verbatim>\<open>a || b\<close> apply it.\<close>

fun truthy :: "jsval \<Rightarrow> bool" where
  "truthy JUndefined = False"
| "truthy JNull = False"
| "truthy (JBool b) = b"
| "truthy (JNum n) = (n \<noteq> 0)"
| "truthy JNaN = False"
| "truthy (JStr s) = (s \<noteq> [])"
| "truthy (JArr xs) = True"
| "truthy (JObj ps) = True"
| "truthy (JFormData es) = True"

text \<open>\<^verbatim>\<open>a || b\<close>\<close>

definition js_or :: "jsval \<Rightarrow> jsval \<Rightarrow> jsval" where
  "js_or a b = (if truthy a then a else b)"

text \<open>\<^verbatim>\<open>body instanceof FormData\<close>\<close>

fun instanceof_FormData :: "jsval \<Rightarrow> bool" where
  "instanceof_FormData (JFormData es) = True"
| "instanceof_FormData v = False"

text \<open>
  \<^verbatim>\<open>data?.message\<close>: undefined on null and undefined; the property of an object that has
  it; undefined on every other value (strings, numbers, booleans and arrays have no
  property of that name).
\<close>

fun get_message :: "jsval \<Rightarrow> jsval" where
  "get_message (JObj ps) = (case map_of ps ''message'' of Some v \<Rightarrow> v | None \<Rightarrow> JUndefined)"
| "get_message v = JUndefined"

text \<open>
  An optional field of a result (\<^verbatim>\<open>data?: T\<close>, \<^verbatim>\<open>error?: string\<close>) carries something when
  it is neither undefined nor null.
\<close>

definition present :: "jsval \<Rightarrow> bool" where
  "present v = (v \<noteq> JUndefined \<and> v \<noteq> JNull)"

section \<open>Objects and their entries\<close>

text \<open>
  A \<^verbatim>\<open>Record<string, T>\<close> is the list of its properties in the order they were inserted,
  keys unique. \<^verbatim>\<open>Object.entries\<close> and the spread \<^verbatim>\<open>{...obj}\<close> do not enumerate in that
  order: by the language standard (OrdinaryOwnPropertyKeys), the keys that are array
  indices come first, in ascending numeric order, and the other keys follow in the order
  of insertion. An array index is the canonical decimal text of an integer from 0 to
  4294967294: digits only, no leading zero.
\<close>

definition is_digit :: "char \<Rightarrow> bool" where
  "is_digit c = (c \<in> set ''0123456789'')"

definition decimal_value :: "string \<Rightarrow> nat" where
  "decimal_value s = foldl (\<lambda>n c. 10 * n + (of_char c - 48)) 0 s"

definition is_array_index :: "string \<Rightarrow> bool" where
  "is_array_index s =
     (case s of
        [] \<Rightarrow> False
      | c # cs \<Rightarrow>
          list_all is_digit s \<and> (c \<noteq> CHR ''0'' \<or> cs = []) \<and> decimal_value s < 4294967295)"

definition Object_entries :: "(string \<times> 'a) list \<Rightarrow> (string \<times> 'a) list" where
  "Object_entries obj =
     sort_key (\<lambda>kv. decimal_value (fst kv)) (filter (\<lambda>kv. is_array_index (fst kv)) obj)
     @ filter (\<lambda>kv. \<not> is_array_index (fst kv)) obj"

section \<open>Query strings\<close>

text \<open>
  A value of a \<^verbatim>\<open>Record<string, string>\<close> that reaches the code at run time: a string, or
  undefined or null, which the code tests for.
\<close>

datatype param_value = PUndefined | PNull | PString string

fun param_string :: "param_value \<Rightarrow> string" where
  "param_string (PString s) = s"
| "param_string PUndefined = ''undefined''"
| "param_string PNull = ''null''"

text \<open>
  The body of the \<^verbatim>\<open>forEach\<close> over \<^verbatim>\<open>Object.entries(params)\<close>:
  \<^verbatim>\<open>queryParams.append(key, value)\<close> for a value that is neither undefined nor null.
  \<^verbatim>\<open>append\<close> adds the pair at the end and would turn any value into its string.
\<close>

definition append_param :: "(string \<times> string) list \<Rightarrow> string \<times> param_value \<Rightarrow> (string \<times> string) list" where
  "append_param queryParams kv =
     (if snd kv \<noteq> PUndefined \<and> snd kv \<noteq> PNull
      then queryParams @ [(fst kv, param_string (snd kv))]
      else queryParams)"

definition collect_params :: "(string \<times> param_value) list \<Rightarrow> (string \<times> string) list" where
  "collect_params params = foldl append_param [] (Object_entries params)"

text \<open>
  \<^verbatim>\<open>URLSearchParams.toString()\<close>: the application/x-www-form-urlencoded serializer. A
  string is its UTF-8 bytes; letters, digits and \<^verbatim>\<open>* - . _\<close> stay, a space becomes
  \<^verbatim>\<open>+\<close>, every other byte becomes \<^verbatim>\<open>%\<close> and two upper-case hexadecimal digits.
\<close>

definition hex_digit :: "nat \<Rightarrow> char" where
  "hex_digit n = ''0123456789ABCDEF'' ! (n mod 16)"

definition urlencode_byte :: "char \<Rightarrow> string" where
  "urlencode_byte c =
     (if c \<in> set ''abcdefghijklmnopqrstuvwxyzABCDEFGHIJKLMNOPQRSTUVWXYZ0123456789*-._'' then [c]
      else if c = CHR '' '' then ''+''
      else [CHR ''%'', hex_digit (of_char c div 16), hex_digit (of_char c mod 16)])"

definition urlencode :: "string \<Rightarrow> string" where
  "urlencode s = concat (map urlencode_byte s)"

fun join_amp :: "string list \<Rightarrow> string" where
  "join_amp [] = []"
| "join_amp [x] = x"
| "join_amp (x # y # ys) = x @ ''&'' @ join_amp (y # ys)"

definition toString :: "(string \<times> string) list \<Rightarrow> string" where
  "toString queryParams = join_amp (map (\<lambda>kv. urlencode (fst kv) @ ''='' @ urlencode (snd kv)) queryParams)"

text \<open>
  Lines 36 to 48 of api.ts (and 212 to 224): the endpoint after the base URL, then, when
  params are given and the query string is not empty, a question mark and the query string.
\<close>

definition build_url :: "string \<Rightarrow> string \<Rightarrow> (string \<times> param_value) list option \<Rightarrow> string" where
  "build_url base endpoint params =
     (let url = base @ endpoint in
      case params of
        None \<Rightarrow> url
      | Some ps \<Rightarrow>
          (let queryString = toString (collect_params ps) in
           if queryString \<noteq> [] then url @ ''?'' @ queryString else url))"

section \<open>The environment of a request\<close>

datatype http_method = GET | POST | PUT | DELETE

text \<open>
  \<^verbatim>\<open>interface RequestOptions\<close>. Optional headers and params are \<open>None\<close> when not given;
  a body that is not given is \<open>JUndefined\<close>.
\<close>

record RequestOptions =
  request_method :: http_method
  headers :: "(string \<times> string) list option"
  body :: jsval
  params :: "(string \<times> param_value) list option"

text \<open>The body handed to \<^verbatim>\<open>fetch\<close>: the form as it is, or the JSON text.\<close>

datatype request_body = FormBody "(string \<times> form_value) list" | TextBody string

text \<open>\<^verbatim>\<open>RequestInit\<close>, as far as the client fills it.\<close>

record RequestInit =
  init_method :: http_method
  init_headers :: "(string \<times> string) list"
  init_credentials :: string
  init_body :: "request_body option"

type_synonym blob = string

text \<open>
  What the client reads of a \<^verbatim>\<open>Response\<close>: \<^verbatim>\<open>status\<close>, \<^verbatim>\<open>statusText\<close>,
  \<^verbatim>\<open>headers.get('content-type')\<close> (\<open>None\<close> for null), and what awaiting \<^verbatim>\<open>json()\<close>,
  \<^verbatim>\<open>text()\<close> and \<^verbatim>\<open>blob()\<close> gives: a value, or the value thrown.
\<close>

record response =
  resp_status :: nat
  resp_statusText :: string
  resp_content_type :: "string option"
  resp_json :: "thrown + jsval"
  resp_text :: "thrown + string"
  resp_blob :: "thrown + blob"

text \<open>\<^verbatim>\<open>response.ok\<close>: by the Fetch standard, the status is in the range 200 to 299.\<close>

definition ok :: "response \<Rightarrow> bool" where
  "ok r = (200 \<le> resp_status r \<and> resp_status r \<le> 299)"

text \<open>
  The platform a call runs on: the environment variable read at line 6, \<^verbatim>\<open>fetch\<close>, which
  gives a response or throws, and \<^verbatim>\<open>JSON.stringify\<close>, which gives a text or throws.
\<close>

record environment =
  REACT_APP_API_URL :: "string option"
  fetch :: "string \<Rightarrow> RequestInit \<Rightarrow> thrown + response"
  JSON_stringify :: "jsval \<Rightarrow> thrown + string"

text \<open>\<^verbatim>\<open>process.env.REACT_APP_API_URL || 'http://localhost:8080/tdg/api'\<close>\<close>

definition API_BASE_URL :: "environment \<Rightarrow> string" where
  "API_BASE_URL env =
     (case REACT_APP_API_URL env of
        None \<Rightarrow> ''http://localhost:8080/tdg/api''
      | Some u \<Rightarrow> if u \<noteq> [] then u else ''http://localhost:8080/tdg/api'')"

text \<open>\<^verbatim>\<open>interface ApiResponse<T>\<close>; an optional field that is not there is \<open>JUndefined\<close>.\<close>

record ApiResponse =
  data :: jsval
  error :: jsval
  status :: nat

section \<open>Building the request\<close>

text \<open>
  Assignment to a property of an object: the value of an existing key is replaced where it
  stands, a new key goes to the end. The spread \<^verbatim>\<open>{...headers}\<close> assigns the entries of
  its argument one after the other, as it enumerates them.
\<close>

fun set_prop :: "string \<Rightarrow> string \<Rightarrow> (string \<times> string) list \<Rightarrow> (string \<times> string) list" where
  "set_prop k v [] = [(k, v)]"
| "set_prop k v (p # ps) = (if fst p = k then (k, v) # ps else p # set_prop k v ps)"

definition spread :: "(string \<times> string) list \<Rightarrow> (string \<times> string) list \<Rightarrow> (string \<times> string) list" where
  "spread obj src = foldl (\<lambda>acc kv. set_prop (fst kv) (snd kv) acc) obj (Object_entries src)"

text \<open>The default of line 33, \<^verbatim>\<open>headers = {}\<close>.\<close>

definition default_headers :: "(string \<times> string) list option \<Rightarrow> (string \<times> string) list" where
  "default_headers hdrs = (case hdrs of None \<Rightarrow> [] | Some h \<Rightarrow> h)"

text \<open>Lines 50 to 59 of api.ts.\<close>

definition request_headers :: "(string \<times> string) list option \<Rightarrow> jsval \<Rightarrow> (string \<times> string) list" where
  "request_headers hdrs b =
     (let requestHeaders = spread [(''Accept'', ''application/json'')] (default_headers hdrs)
      in if truthy b \<and> \<not> instanceof_FormData b
         then set_prop ''Content-Type'' ''application/json'' requestHeaders
         else requestHeaders)"

text \<open>Lines 68 to 75 of api.ts; \<^verbatim>\<open>JSON.stringify\<close> runs before the \<^verbatim>\<open>try\<close>.\<close>

definition request_body_of :: "environment \<Rightarrow> jsval \<Rightarrow> thrown + request_body option" where
  "request_body_of env b =
     (if truthy b then
        (case b of
           JFormData es \<Rightarrow> Inr (Some (FormBody es))
         | _ \<Rightarrow> (case JSON_stringify env b of Inl e \<Rightarrow> Inl e | Inr s \<Rightarrow> Inr (Some (TextBody s))))
      else Inr None)"

definition build_request :: "environment \<Rightarrow> string \<Rightarrow> RequestOptions \<Rightarrow> thrown + string \<times> RequestInit" where
  "build_request env endpoint options =
     (let url = build_url (API_BASE_URL env) endpoint (params options);
          requestHeaders = request_headers (headers options) (body options)
      in case request_body_of env (body options) of
           Inl e \<Rightarrow> Inl e
         | Inr b \<Rightarrow>
             Inr (url, \<lparr>init_method = request_method options, init_headers = requestHeaders,
                        init_credentials = ''include'', init_body = b\<rparr>))"

section \<open>Normalising the response\<close>

text \<open>\<^verbatim>\<open>s.includes(sub)\<close>\<close>

fun includes_str :: "string \<Rightarrow> string \<Rightarrow> bool" where
  "includes_str [] sub = (sub = [])"
| "includes_str (c # cs) sub = (take (length sub) (c # cs) = sub \<or> includes_str cs sub)"

text \<open>\<^verbatim>\<open>contentType && contentType.includes('application/json')\<close>, as a condition.\<close>

definition isJson :: "response \<Rightarrow> bool" where
  "isJson r =
     (case resp_content_type r of
        None \<Rightarrow> False
      | Some contentType \<Rightarrow> contentType \<noteq> [] \<and> includes_str contentType ''application/json'')"

text \<open>Lines 85 to 92 of api.ts.\<close>

definition parse_data :: "response \<Rightarrow> thrown + jsval" where
  "parse_data r =
     (if isJson r then resp_json r
      else if resp_status r \<noteq> 204 then
        (case resp_text r of Inl e \<Rightarrow> Inl e | Inr s \<Rightarrow> Inr (JStr s))
      else Inr JNull)"

text \<open>The \<^verbatim>\<open>catch\<close> block, lines 100 to 107: the object has no \<^verbatim>\<open>data\<close>.\<close>

definition network_error :: "thrown \<Rightarrow> ApiResponse" where
  "network_error e =
     \<lparr>data = JUndefined,
      error = JStr (case e of ErrorObj m \<Rightarrow> m | NonError \<Rightarrow> ''Network error''),
      status = 0\<rparr>"

text \<open>Lines 94 to 99 of api.ts.\<close>

definition structured :: "response \<Rightarrow> jsval \<Rightarrow> ApiResponse" where
  "structured r d =
     \<lparr>data = (if ok r then d else JUndefined),
      error = (if ok r then JUndefined else js_or (get_message d) (JStr (resp_statusText r))),
      status = resp_status r\<rparr>"

text \<open>The \<^verbatim>\<open>try\<close> statement, lines 77 to 107.\<close>

definition send :: "environment \<Rightarrow> string \<Rightarrow> RequestInit \<Rightarrow> ApiResponse" where
  "send env url requestOptions =
     (case fetch env url requestOptions of
        Inl e \<Rightarrow> network_error e
      | Inr r \<Rightarrow> (case parse_data r of Inl e \<Rightarrow> network_error e | Inr d \<Rightarrow> structured r d))"

text \<open>
  \<^verbatim>\<open>apiRequest\<close>. \<open>Inl\<close> is an exception that reaches the caller (a rejected promise),
  \<open>Inr\<close> the result the promise resolves to.
\<close>

definition apiRequest :: "environment \<Rightarrow> string \<Rightarrow> RequestOptions \<Rightarrow> thrown + ApiResponse" where
  "apiRequest env endpoint options =
     (case build_request env endpoint options of
        Inl e \<Rightarrow> Inl e
      | Inr (url, requestOptions) \<Rightarrow> Inr (send env url requestOptions))"

section \<open>Upload\<close>

text \<open>
  Lines 185 to 192 of api.ts. The parameter \<^verbatim>\<open>fieldName: string = 'file'\<close> takes its
  default when the caller passes nothing.
\<close>

definition upload_form ::
  "js_file \<Rightarrow> string option \<Rightarrow> (string \<times> string) list option \<Rightarrow> (string \<times> form_value) list" where
  "upload_form f fieldName additionalData =
     (let formData = [(case fieldName of None \<Rightarrow> ''file'' | Some n \<Rightarrow> n, FFile f)]
      in case additionalData of
           None \<Rightarrow> formData
         | Some kvs \<Rightarrow>
             foldl (\<lambda>fd kv. fd @ [(fst kv, FString (snd kv))]) formData (Object_entries kvs))"

definition uploadFile ::
  "environment \<Rightarrow> string \<Rightarrow> js_file \<Rightarrow> string option \<Rightarrow> (string \<times> string) list option
     \<Rightarrow> thrown + ApiResponse" where
  "uploadFile env endpoint f fieldName additionalData =
     apiRequest env endpoint
       \<lparr>request_method = POST, headers = None,
        body = JFormData (upload_form f fieldName additionalData), params = None\<rparr>"

section \<open>Download\<close>









section \<open>A stub collaborator\<close>

text \<open>
  An environment with no base URL configured whose \<^verbatim>\<open>fetch\<close> gives the same outcome to
  every request. Its \<^verbatim>\<open>JSON.stringify\<close> throws: it serves calls that have no body to encode.
\<close>

definition stub :: "thrown + response \<Rightarrow> environment" where
  "stub outcome =
     \<lparr>REACT_APP_API_URL = None,
      fetch = (\<lambda>url requestOptions. outcome),
      JSON_stringify = (\<lambda>v. Inl (ErrorObj ''not used''))\<rparr>"

text \<open>The same, with a \<^verbatim>\<open>JSON.stringify\<close> that gives the text it is told to give.\<close>

definition stub_encoding :: "thrown + response \<Rightarrow> string \<Rightarrow> environment" where
  "stub_encoding outcome encoded =
     \<lparr>REACT_APP_API_URL = None,
      fetch = (\<lambda>url requestOptions. outcome),
      JSON_stringify = (\<lambda>v. Inr encoded)\<rparr>"

text \<open>
  An environment whose \<^verbatim>\<open>fetch\<close> answers one request only, the expected URL with the expected
  options, and throws on every other.
\<close>

definition expecting :: "string \<Rightarrow> RequestInit \<Rightarrow> response \<Rightarrow> environment" where
  "expecting expected_url expected_init r =
     \<lparr>REACT_APP_API_URL = None,
      fetch = (\<lambda>url requestOptions.
                 if url = expected_url \<and> requestOptions = expected_init then Inr r
                 else Inl (ErrorObj ''unexpected request'')),
      JSON_stringify = (\<lambda>v. Inl (ErrorObj ''not used''))\<rparr>"

text \<open>A GET without headers, body or params.\<close>

definition get_options :: RequestOptions where
  "get_options = \<lparr>request_method = GET, headers = None, body = JUndefined, params = None\<rparr>"

text \<open>A POST of the empty object, with an Accept and a Content-Type of the caller.\<close>

definition schedule_post :: RequestOptions where
  "schedule_post =
     \<lparr>request_method = POST,
      headers = Some [(''Accept'', ''text/csv''), (''Content-Type'', ''text/plain'')],
      body = JObj [], params = None\<rparr>"

text \<open>A POST whose body is \<^verbatim>\<open>false\<close>.\<close>

definition false_post :: RequestOptions where
  "false_post = \<lparr>request_method = POST, headers = None, body = JBool False, params = None\<rparr>"

text \<open>A POST of a form, with a Content-Type of the caller.\<close>

definition form_post :: RequestOptions where
  "form_post =
     \<lparr>request_method = POST, headers = Some [(''Content-Type'', ''application/json'')],
      body = JFormData [(''file'', FFile (File ''a.pdf'' ''%PDF''))], params = None\<rparr>"


section \<open>Responses of the stub\<close>

text \<open>Status 200 and the empty page of templates as JSON.\<close>

definition page_json_200 :: response where
  \<open>page_json_200 =
     \<lparr>resp_status = 200, resp_statusText = ''OK'',
      resp_content_type = Some ''application/json;charset=UTF-8'',
      resp_json = Inr (JObj [(''content'', JArr []), (''totalElements'', JNum 0),
                             (''totalPages'', JNum 0), (''size'', JNum 10), (''number'', JNum 0)]),
      resp_text = Inr ''{"content":[],"totalElements":0,"totalPages":0,"size":10,"number":0}'',
      resp_blob = Inr ''{"content":[],"totalElements":0,"totalPages":0,"size":10,"number":0}''\<rparr>\<close>

text \<open>Status 200, a JSON content type and an empty body, on which \<^verbatim>\<open>json()\<close> throws.\<close>

definition empty_json_200 :: response where
  "empty_json_200 =
     \<lparr>resp_status = 200, resp_statusText = ''OK'',
      resp_content_type = Some ''application/json'',
      resp_json = Inl (ErrorObj ''Unexpected end of JSON input''),
      resp_text = Inr [], resp_blob = Inr []\<rparr>"

text \<open>Status 404 with a plain-text body and no reason phrase, as over HTTP/2.\<close>

definition not_found_no_reason :: response where
  "not_found_no_reason =
     \<lparr>resp_status = 404, resp_statusText = [],
      resp_content_type = Some ''text/plain'',
      resp_json = Inl (ErrorObj ''Unexpected token N in JSON at position 0''),
      resp_text = Inr ''Not found'', resp_blob = Inr ''Not found''\<rparr>"

text \<open>Status 500 that declares JSON and sends HTML, on which \<^verbatim>\<open>json()\<close> throws.\<close>

definition html_error_500 :: response where
  "html_error_500 =
     \<lparr>resp_status = 500, resp_statusText = ''Internal Server Error'',
      resp_content_type = Some ''application/json'',
      resp_json = Inl (ErrorObj ''Unexpected token < in JSON at position 0''),
      resp_text = Inr ''<html></html>'', resp_blob = Inr ''<html></html>''\<rparr>"

text \<open>Status 400 with a JSON body that has a message.\<close>

definition name_required_400 :: response where
  \<open>name_required_400 =
     \<lparr>resp_status = 400, resp_statusText = ''Bad Request'',
      resp_content_type = Some ''application/json'',
      resp_json = Inr (JObj [(''message'', JStr ''name is required'')]),
      resp_text = Inr ''{"message":"name is required"}'',
      resp_blob = Inr ''{"message":"name is required"}''\<rparr>\<close>

text \<open>Status 200 with the JSON body \<^verbatim>\<open>null\<close>.\<close>

definition null_json_200 :: response where
  "null_json_200 =
     \<lparr>resp_status = 200, resp_statusText = ''OK'',
      resp_content_type = Some ''application/json'',
      resp_json = Inr JNull,
      resp_text = Inr ''null'', resp_blob = Inr ''null''\<rparr>"

text \<open>Status 204 without a content type: the body is empty.\<close>

definition no_content_204 :: response where
  "no_content_204 =
     \<lparr>resp_status = 204, resp_statusText = ''No Content'',
      resp_content_type = None,
      resp_json = Inl (ErrorObj ''Unexpected end of JSON input''),
      resp_text = Inr [], resp_blob = Inr []\<rparr>"

text \<open>Status 204 with a JSON content type: the body is empty, and \<^verbatim>\<open>json()\<close> throws on it.\<close>

definition no_content_json_204 :: response where
  "no_content_json_204 =
     \<lparr>resp_status = 204, resp_statusText = ''No Content'',
      resp_content_type = Some ''application/json'',
      resp_json = Inl (ErrorObj ''Unexpected end of JSON input''),
      resp_text = Inr [], resp_blob = Inr []\<rparr>"

text \<open>Status 200 and the template found in an uploaded PDF, as JSON.\<close>

definition analysed_200 :: response where
  \<open>analysed_200 =
     \<lparr>resp_status = 200, resp_statusText = ''OK'',
      resp_content_type = Some ''application/json'',
      resp_json = Inr (JObj [(''name'', JStr ''a'')]),
      resp_text = Inr ''{"name":"a"}'', resp_blob = Inr ''{"name":"a"}''\<rparr>\<close>


section \<open>Objects and their entries: properties\<close>

lemmas entries_eval = Object_entries_def is_array_index_def is_digit_def decimal_value_def

lemma Object_entries_Nil: "Object_entries [] = []"
  by (simp add: Object_entries_def)

lemma set_Object_entries: "set (Object_entries obj) = set obj"
  by (auto simp: Object_entries_def)

lemma distinct_Object_entries:
  "distinct (map fst obj) \<Longrightarrow> distinct (map fst (Object_entries obj))"
  by (auto simp: Object_entries_def distinct_map inj_on_def)

lemma map_of_Object_entries:
  assumes "distinct (map fst obj)"
  shows "map_of (Object_entries obj) = map_of obj"
  using assms distinct_Object_entries [OF assms]
  by (simp add: map_of_inject_set set_Object_entries)

lemma Object_entries_plain:
  "list_all (\<lambda>kv. \<not> is_array_index (fst kv)) obj \<Longrightarrow> Object_entries obj = obj"
  by (simp add: Object_entries_def list_all_iff)

section \<open>Query strings: properties\<close>

lemma foldl_append_param:
  "foldl append_param acc ps =
     acc @ map (\<lambda>kv. (fst kv, param_string (snd kv)))
             (filter (\<lambda>kv. snd kv \<noteq> PUndefined \<and> snd kv \<noteq> PNull) ps)"
  by (induction ps arbitrary: acc) (simp_all add: append_param_def)

lemma string_entries:
  "map (\<lambda>kv. (fst kv, param_string (snd kv)))
       (filter (\<lambda>kv. snd kv \<noteq> PUndefined \<and> snd kv \<noteq> PNull) es)
     = [(k, s). (k, PString s) \<leftarrow> es]"
proof (induction es)
  case Nil
  show ?case by simp
next
  case (Cons a es)
  then show ?case by (cases a; cases "snd a") auto
qed

lemma collect_params_strings:
  "collect_params ps = [(k, s). (k, PString s) \<leftarrow> Object_entries ps]"
  by (simp add: collect_params_def foldl_append_param string_entries)

text \<open>
  Claim C6, with the order as the language has it. The pairs that reach the query string
  are exactly the entries of the params whose value is a string: an entry whose value is
  undefined or null is left out, and so is never written as the text "undefined". They
  come in the order in which \<^verbatim>\<open>Object.entries\<close> enumerates the params, which is the order
  of insertion when no key is an array index. The query string is the serialisation of
  these pairs. For the params a = "1", b = undefined, c = "x" it is a=1&c=x.
\<close>

theorem query_string_omits_undefined_and_null:
  "collect_params ps = [(k, s). (k, PString s) \<leftarrow> Object_entries ps]
   \<and> (list_all (\<lambda>kv. \<not> is_array_index (fst kv)) ps \<longrightarrow>
        collect_params ps = [(k, s). (k, PString s) \<leftarrow> ps])
   \<and> build_url base endpoint (Some ps) =
       (if toString (collect_params ps) = [] then base @ endpoint
        else base @ endpoint @ ''?'' @ toString (collect_params ps))
   \<and> toString (collect_params [(''a'', PString ''1''), (''b'', PUndefined), (''c'', PString ''x'')])
       = ''a=1&c=x''"
proof -
  have "toString (collect_params [(''a'', PString ''1''), (''b'', PUndefined), (''c'', PString ''x'')])
          = ''a=1&c=x''"
    by (simp add: toString_def collect_params_def append_param_def urlencode_def urlencode_byte_def
          entries_eval)
  then show ?thesis
    by (simp add: collect_params_strings build_url_def Object_entries_plain)
qed

text \<open>The list request of the end-to-end scenario, with a sort that is null.\<close>

theorem query_string_omits_undefined_and_null_witness:
  "list_all (\<lambda>kv. \<not> is_array_index (fst kv))
     [(''page'', PString ''0''), (''sort'', PNull), (''size'', PString ''10'')]
   \<and> collect_params [(''page'', PString ''0''), (''sort'', PNull), (''size'', PString ''10'')]
     = [(''page'', ''0''), (''size'', ''10'')]
   \<and> build_url ''http://localhost:8080/tdg/api'' ''/templates''
         (Some [(''page'', PString ''0''), (''sort'', PNull), (''size'', PString ''10'')])
     = ''http://localhost:8080/tdg/api/templates?page=0&size=10''"
proof -
  let ?ps = "[(''page'', PString ''0''), (''sort'', PNull), (''size'', PString ''10'')]"
  have plain: "list_all (\<lambda>kv. \<not> is_array_index (fst kv)) ?ps"
    by (simp add: is_array_index_def is_digit_def)
  have "collect_params ?ps = [(k, s). (k, PString s) \<leftarrow> ?ps]"
    using plain query_string_omits_undefined_and_null [of ?ps] by blast
  then have kept: "collect_params ?ps = [(''page'', ''0''), (''size'', ''10'')]"
    by simp
  have "build_url ''http://localhost:8080/tdg/api'' ''/templates'' (Some ?ps) =
       (if toString (collect_params ?ps) = [] then ''http://localhost:8080/tdg/api'' @ ''/templates''
        else ''http://localhost:8080/tdg/api'' @ ''/templates'' @ ''?'' @ toString (collect_params ?ps))"
    using query_string_omits_undefined_and_null
      [of ?ps "''http://localhost:8080/tdg/api''" "''/templates''"]
    by blast
  then have "build_url ''http://localhost:8080/tdg/api'' ''/templates'' (Some ?ps)
               = ''http://localhost:8080/tdg/api/templates?page=0&size=10''"
    by (simp add: kept toString_def urlencode_def urlencode_byte_def)
  then show ?thesis
    using plain kept by simp
qed

text \<open>
  Params to which b was added before the key 1: the key 1 is an array index and is
  enumerated first, so the query string does not follow the order of insertion.
\<close>

theorem query_string_omits_undefined_and_null_counterexample:
  "collect_params [(''b'', PString ''x''), (''1'', PString ''y'')] = [(''1'', ''y''), (''b'', ''x'')]
   \<and> build_url ''http://localhost:8080/tdg/api'' ''/templates''
         (Some [(''b'', PString ''x''), (''1'', PString ''y'')])
     = ''http://localhost:8080/tdg/api/templates?1=y&b=x''"
  by (simp add: build_url_def toString_def collect_params_def append_param_def urlencode_def
        urlencode_byte_def entries_eval)

section \<open>The gateway: properties\<close>

lemma map_of_set_prop: "map_of (set_prop k v ps) = (map_of ps)(k \<mapsto> v)"
  by (induction ps) (auto simp: fun_eq_iff)

lemma apiRequest_sent:
  "build_request env endpoint options = Inr (url, init) \<Longrightarrow>
     apiRequest env endpoint options = Inr (send env url init)"
  by (simp add: apiRequest_def)

lemma send_response:
  "fetch env url init = Inr r \<Longrightarrow> parse_data r = Inr d \<Longrightarrow> send env url init = structured r d"
  by (simp add: send_def)

lemma send_decode_failure:
  "fetch env url init = Inr r \<Longrightarrow> parse_data r = Inl e \<Longrightarrow> send env url init = network_error e"
  by (simp add: send_def)

lemma send_transport_failure:
  "fetch env url init = Inl e \<Longrightarrow> send env url init = network_error e"
  by (simp add: send_def)

lemma js_or_present: "present (js_or v (JStr s))"
  by (cases v) (simp_all add: js_or_def present_def)

lemma not_present_undefined: "\<not> present JUndefined"
  by (simp add: present_def)

lemma build_request_no_body:
  "\<not> truthy (body options) \<Longrightarrow>
     build_request env endpoint options =
       Inr (build_url (API_BASE_URL env) endpoint (params options),
            \<lparr>init_method = request_method options,
             init_headers = spread [(''Accept'', ''application/json'')] (default_headers (headers options)),
             init_credentials = ''include'', init_body = None\<rparr>)"
  by (simp add: build_request_def request_body_of_def request_headers_def)

lemma build_request_get:
  "build_request (stub outcome) endpoint get_options =
     Inr (''http://localhost:8080/tdg/api'' @ endpoint,
          \<lparr>init_method = GET, init_headers = [(''Accept'', ''application/json'')],
           init_credentials = ''include'', init_body = None\<rparr>)"
  by (simp add: build_request_no_body get_options_def build_url_def API_BASE_URL_def stub_def
        spread_def default_headers_def Object_entries_Nil)

lemma fetch_stub: "fetch (stub outcome) url init = outcome"
  by (simp add: stub_def)

text \<open>
  Claim C1, for a response whose body is read without an exception. The result carries the
  status of the response; it has no error exactly when that status is in the range 200 to
  299; and when the response declares a JSON content type and the status is in the range,
  the data are what \<^verbatim>\<open>response.json()\<close> gave and there is no error.
\<close>

theorem apiRequest_success_iff_ok:
  assumes "build_request env endpoint options = Inr (url, init)"
      and "fetch env url init = Inr r"
      and "parse_data r = Inr d"
  shows "\<exists>res. apiRequest env endpoint options = Inr res
           \<and> status res = resp_status r
           \<and> (\<not> present (error res) \<longleftrightarrow> 200 \<le> resp_status r \<and> resp_status r \<le> 299)
           \<and> (isJson r \<and> 200 \<le> resp_status r \<and> resp_status r \<le> 299
                \<longrightarrow> resp_json r = Inr (data res) \<and> error res = JUndefined)"
proof -
  have sent: "apiRequest env endpoint options = Inr (structured r d)"
    using assms by (simp add: apiRequest_sent send_response)
  have json: "isJson r \<Longrightarrow> resp_json r = Inr d"
    using assms(3) by (simp add: parse_data_def)
  show ?thesis
    unfolding sent using json
    by (simp add: structured_def ok_def js_or_present not_present_undefined)
qed

text \<open>The page of templates of the end-to-end scenario, status 200.\<close>

theorem apiRequest_success_iff_ok_witness:
  "build_request (stub (Inr page_json_200)) ''/templates'' get_options =
     Inr (''http://localhost:8080/tdg/api/templates'',
          \<lparr>init_method = GET, init_headers = [(''Accept'', ''application/json'')],
           init_credentials = ''include'', init_body = None\<rparr>)
   \<and> isJson page_json_200
   \<and> (\<exists>res. apiRequest (stub (Inr page_json_200)) ''/templates'' get_options = Inr res
          \<and> status res = 200 \<and> \<not> present (error res) \<and> resp_json page_json_200 = Inr (data res))"
proof -
  have b: "build_request (stub (Inr page_json_200)) ''/templates'' get_options =
     Inr (''http://localhost:8080/tdg/api/templates'',
          \<lparr>init_method = GET, init_headers = [(''Accept'', ''application/json'')],
           init_credentials = ''include'', init_body = None\<rparr>)"
    by (simp add: build_request_get)
  have f: "fetch (stub (Inr page_json_200)) ''http://localhost:8080/tdg/api/templates''
             \<lparr>init_method = GET, init_headers = [(''Accept'', ''application/json'')],
              init_credentials = ''include'', init_body = None\<rparr> = Inr page_json_200"
    by (simp add: fetch_stub)
  have j: "isJson page_json_200"
    by (simp add: isJson_def page_json_200_def)
  have p: "parse_data page_json_200 = Inr (JObj [(''content'', JArr []), (''totalElements'', JNum 0),
                             (''totalPages'', JNum 0), (''size'', JNum 10), (''number'', JNum 0)])"
    by (simp add: parse_data_def j) (simp add: page_json_200_def)
  have s: "resp_status page_json_200 = 200"
    by (simp add: page_json_200_def)
  show ?thesis
    using apiRequest_success_iff_ok [OF b f p] b j s by auto
qed

text \<open>
  A response with status 200 and a JSON content type whose body is empty: \<^verbatim>\<open>json()\<close>
  throws, the \<^verbatim>\<open>catch\<close> block answers, and the result is a failure with status 0.
\<close>

theorem apiRequest_success_iff_ok_counterexample:
  "200 \<le> resp_status empty_json_200 \<and> resp_status empty_json_200 \<le> 299
   \<and> isJson empty_json_200
   \<and> fetch (stub (Inr empty_json_200)) ''http://localhost:8080/tdg/api/templates''
        \<lparr>init_method = GET, init_headers = [(''Accept'', ''application/json'')],
         init_credentials = ''include'', init_body = None\<rparr> = Inr empty_json_200
   \<and> apiRequest (stub (Inr empty_json_200)) ''/templates'' get_options =
       Inr \<lparr>data = JUndefined, error = JStr ''Unexpected end of JSON input'', status = 0\<rparr>"
  by (simp add: apiRequest_def build_request_get send_def fetch_stub parse_data_def isJson_def
        network_error_def empty_json_200_def)

text \<open>
  Claim C2, with the message as the code takes it. When \<^verbatim>\<open>fetch\<close> throws, no exception
  reaches the caller: the call gives a result with status 0, no data, and as error the
  message of the thrown \<^verbatim>\<open>Error\<close>, or "Network error" when the thrown value is not an
  \<^verbatim>\<open>Error\<close>. The error is not empty unless an \<^verbatim>\<open>Error\<close> with an empty message was thrown.
\<close>

theorem transport_failure_result:
  assumes "build_request env endpoint options = Inr (url, init)"
      and "fetch env url init = Inl e"
  shows "apiRequest env endpoint options =
           Inr \<lparr>data = JUndefined,
                error = JStr (case e of ErrorObj m \<Rightarrow> m | NonError \<Rightarrow> ''Network error''),
                status = 0\<rparr>
         \<and> (e \<noteq> ErrorObj [] \<longrightarrow>
              (case e of ErrorObj m \<Rightarrow> m | NonError \<Rightarrow> ''Network error'') \<noteq> [])"
  using assms
  by (cases e) (simp_all add: apiRequest_sent send_transport_failure network_error_def)

text \<open>A connection that is refused.\<close>

theorem transport_failure_result_witness:
  "apiRequest (stub (Inl (ErrorObj ''Failed to fetch''))) ''/templates'' get_options =
     Inr \<lparr>data = JUndefined, error = JStr ''Failed to fetch'', status = 0\<rparr>"
  using transport_failure_result
    [OF build_request_get [of "Inl (ErrorObj ''Failed to fetch'')" "''/templates''"] fetch_stub]
  by simp

text \<open>An \<^verbatim>\<open>Error\<close> thrown with an empty message gives an empty error.\<close>

theorem transport_failure_result_counterexample:
  "fetch (stub (Inl (ErrorObj []))) ''http://localhost:8080/tdg/api/templates''
        \<lparr>init_method = GET, init_headers = [(''Accept'', ''application/json'')],
         init_credentials = ''include'', init_body = None\<rparr> = Inl (ErrorObj [])
   \<and> apiRequest (stub (Inl (ErrorObj []))) ''/templates'' get_options =
       Inr \<lparr>data = JUndefined, error = JStr [], status = 0\<rparr>"
  by (simp add: apiRequest_def build_request_get send_def fetch_stub network_error_def)

text \<open>
  Claim C3, for a response whose body is read without an exception. When the status is
  outside 200 to 299, the result carries that status, has no data, and its error is the
  \<^verbatim>\<open>message\<close> property of the decoded body when that is truthy, and the reason phrase
  otherwise. The error is there (neither undefined nor null), and it is not empty when the
  reason phrase is not empty.
\<close>

theorem failure_status_result:
  assumes "build_request env endpoint options = Inr (url, init)"
      and "fetch env url init = Inr r"
      and "\<not> (200 \<le> resp_status r \<and> resp_status r \<le> 299)"
      and "parse_data r = Inr d"
  shows "\<exists>res. apiRequest env endpoint options = Inr res
           \<and> status res = resp_status r
           \<and> data res = JUndefined
           \<and> error res = (if truthy (get_message d) then get_message d
                           else JStr (resp_statusText r))
           \<and> present (error res)
           \<and> (resp_statusText r \<noteq> [] \<longrightarrow> truthy (error res))"
proof -
  have "apiRequest env endpoint options = Inr (structured r d)"
    using assms by (simp add: apiRequest_sent send_response)
  moreover have "\<not> ok r"
    using assms(3) by (simp add: ok_def)
  ultimately show ?thesis
    using js_or_present [of "get_message d" "resp_statusText r"]
    by (simp add: structured_def js_or_def)
qed

text \<open>The scenario of a rejected schedule: status 400 and a body with a message.\<close>

theorem failure_status_result_witness:
  "\<not> (200 \<le> resp_status name_required_400 \<and> resp_status name_required_400 \<le> 299)
   \<and> parse_data name_required_400 = Inr (JObj [(''message'', JStr ''name is required'')])
   \<and> apiRequest (stub (Inr name_required_400)) ''/schedules'' get_options =
       Inr \<lparr>data = JUndefined, error = JStr ''name is required'', status = 400\<rparr>"
proof -
  have s: "\<not> (200 \<le> resp_status name_required_400 \<and> resp_status name_required_400 \<le> 299)"
    by (simp add: name_required_400_def)
  have p: "parse_data name_required_400 = Inr (JObj [(''message'', JStr ''name is required'')])"
    by (simp add: parse_data_def isJson_def name_required_400_def)
  have "\<exists>res. apiRequest (stub (Inr name_required_400)) ''/schedules'' get_options = Inr res
           \<and> status res = resp_status name_required_400
           \<and> data res = JUndefined
           \<and> error res = JStr ''name is required''"
    using failure_status_result [OF build_request_get fetch_stub s p, of "''/schedules''"]
    by auto
  then have "apiRequest (stub (Inr name_required_400)) ''/schedules'' get_options =
       Inr \<lparr>data = JUndefined, error = JStr ''name is required'', status = 400\<rparr>"
    by (auto simp: name_required_400_def)
  then show ?thesis using s p by simp
qed

text \<open>
  A 404 without a reason phrase (as over HTTP/2) and a plain-text body gives an empty error;
  a 500 that declares JSON and sends something else gives status 0 and the message of the
  exception, neither a message property nor the reason phrase.
\<close>

theorem failure_status_result_counterexample:
  "\<not> (200 \<le> resp_status not_found_no_reason \<and> resp_status not_found_no_reason \<le> 299)
   \<and> apiRequest (stub (Inr not_found_no_reason)) ''/templates/7'' get_options =
       Inr \<lparr>data = JUndefined, error = JStr [], status = 404\<rparr>
   \<and> \<not> (200 \<le> resp_status html_error_500 \<and> resp_status html_error_500 \<le> 299)
   \<and> resp_statusText html_error_500 = ''Internal Server Error''
   \<and> apiRequest (stub (Inr html_error_500)) ''/templates/7'' get_options =
       Inr \<lparr>data = JUndefined, error = JStr ''Unexpected token < in JSON at position 0'',
            status = 0\<rparr>"
proof -
  have a: "apiRequest (stub (Inr not_found_no_reason)) ''/templates/7'' get_options =
       Inr \<lparr>data = JUndefined, error = JStr [], status = 404\<rparr>"
    by (simp add: apiRequest_def build_request_get send_def fetch_stub parse_data_def isJson_def
          structured_def ok_def js_or_def not_found_no_reason_def)
  have b: "apiRequest (stub (Inr html_error_500)) ''/templates/7'' get_options =
       Inr \<lparr>data = JUndefined, error = JStr ''Unexpected token < in JSON at position 0'',
            status = 0\<rparr>"
    by (simp add: apiRequest_def build_request_get send_def fetch_stub parse_data_def isJson_def
          network_error_def html_error_500_def)
  show ?thesis
    using a b by (simp add: not_found_no_reason_def html_error_500_def)
qed

lemma apiRequest_Inr:
  assumes "apiRequest env endpoint options = Inr res"
  obtains url init where "build_request env endpoint options = Inr (url, init)"
    and "res = send env url init"
  using assms by (auto simp: apiRequest_def split: sum.splits)

lemma network_error_fields:
  "data (network_error e) = JUndefined" "present (error (network_error e))"
  by (simp_all add: network_error_def present_def)

text \<open>
  Claim C4, with the exception as the code has it. No result has both data and an error.
  A result has neither exactly when the response has a status in 200 to 299 and reading
  its body gave nothing (null). Reading gives what \<^verbatim>\<open>json()\<close> gives when the response
  declares JSON, so null for a JSON body that is the literal null, and it gives null for a
  204 response that does not declare JSON. Every other result has exactly one.
\<close>

theorem data_and_error_exclusive:
  assumes "apiRequest env endpoint options = Inr res"
  shows "\<not> (present (data res) \<and> present (error res))
         \<and> ((\<not> present (data res) \<and> \<not> present (error res)) \<longleftrightarrow>
              (\<exists>url init r d. build_request env endpoint options = Inr (url, init)
                 \<and> fetch env url init = Inr r
                 \<and> 200 \<le> resp_status r \<and> resp_status r \<le> 299
                 \<and> parse_data r = Inr d \<and> \<not> present d))
         \<and> (\<forall>r. isJson r \<longrightarrow> parse_data r = resp_json r)
         \<and> (\<forall>r. \<not> isJson r \<and> resp_status r = 204 \<longrightarrow> parse_data r = Inr JNull)"
proof -
  have reading: "(\<forall>r. isJson r \<longrightarrow> parse_data r = resp_json r)
         \<and> (\<forall>r. \<not> isJson r \<and> resp_status r = 204 \<longrightarrow> parse_data r = Inr JNull)"
    by (simp add: parse_data_def)
  from assms obtain url init where
    b: "build_request env endpoint options = Inr (url, init)" and res: "res = send env url init"
    by (rule apiRequest_Inr)
  let ?rhs = "\<exists>url init r d. build_request env endpoint options = Inr (url, init)
                 \<and> fetch env url init = Inr r
                 \<and> 200 \<le> resp_status r \<and> resp_status r \<le> 299
                 \<and> parse_data r = Inr d \<and> \<not> present d"
  show ?thesis
  proof (cases "fetch env url init")
    case (Inl e)
    then have "res = network_error e" by (simp add: res send_transport_failure)
    moreover have "\<not> ?rhs" using b Inl by auto
    ultimately show ?thesis
      using reading by (simp add: network_error_fields not_present_undefined)
  next
    case (Inr r)
    show ?thesis
    proof (cases "parse_data r")
      case (Inl e)
      then have "res = network_error e" using Inr by (simp add: res send_decode_failure)
      moreover have "\<not> ?rhs" using b Inr Inl by auto
      ultimately show ?thesis
      using reading by (simp add: network_error_fields not_present_undefined)
    next
      case d: (Inr d)
      have s: "res = structured r d" using Inr d by (simp add: res send_response)
      show ?thesis
      proof (cases "ok r")
        case True
        then have "?rhs \<longleftrightarrow> \<not> present d"
          using b Inr d by (auto simp: ok_def)
        then show ?thesis
          using True reading by (simp add: s structured_def not_present_undefined)
      next
        case False
        then have "\<not> ?rhs" using b Inr d by (auto simp: ok_def)
        then show ?thesis
          using False reading by (simp add: s structured_def not_present_undefined js_or_present)
      qed
    qed
  qed
qed

text \<open>
  A rejected request has an error and no data; a 204 without a content type has neither.
\<close>

theorem data_and_error_exclusive_witness:
  "apiRequest (stub (Inr name_required_400)) ''/schedules/3'' get_options =
     Inr \<lparr>data = JUndefined, error = JStr ''name is required'', status = 400\<rparr>
   \<and> \<not> (present JUndefined \<and> present (JStr ''name is required''))
   \<and> apiRequest (stub (Inr no_content_204)) ''/schedules/3'' get_options =
     Inr \<lparr>data = JNull, error = JUndefined, status = 204\<rparr>
   \<and> \<not> present JNull \<and> \<not> present JUndefined
   \<and> parse_data no_content_204 = Inr JNull"
proof -
  have a: "apiRequest (stub (Inr name_required_400)) ''/schedules/3'' get_options =
     Inr \<lparr>data = JUndefined, error = JStr ''name is required'', status = 400\<rparr>"
    by (simp add: apiRequest_def build_request_get send_def fetch_stub parse_data_def isJson_def
          structured_def ok_def js_or_def name_required_400_def)
  have b: "apiRequest (stub (Inr no_content_204)) ''/schedules/3'' get_options =
     Inr \<lparr>data = JNull, error = JUndefined, status = 204\<rparr>"
    by (simp add: apiRequest_def build_request_get send_def fetch_stub parse_data_def isJson_def
          structured_def ok_def no_content_204_def)
  have j: "\<not> isJson no_content_204 \<and> resp_status no_content_204 = 204"
    by (simp add: isJson_def no_content_204_def)
  show ?thesis
    using data_and_error_exclusive [OF a] data_and_error_exclusive [OF b] a b j
    by (simp add: not_present_undefined present_def)
qed

text \<open>
  A response with status 200 whose JSON body is \<^verbatim>\<open>null\<close>: it has a body, and the result
  has neither data nor an error.
\<close>

theorem data_and_error_exclusive_counterexample:
  "apiRequest (stub (Inr null_json_200)) ''/templates/7'' get_options =
     Inr \<lparr>data = JNull, error = JUndefined, status = 200\<rparr>
   \<and> \<not> present JNull \<and> \<not> present JUndefined
   \<and> resp_status null_json_200 \<noteq> 204
   \<and> resp_text null_json_200 = Inr ''null''"
  by (simp add: apiRequest_def build_request_get send_def fetch_stub parse_data_def isJson_def
        structured_def ok_def present_def null_json_200_def)

text \<open>
  Claim C5, for a 204 response that does not declare a JSON content type: the result has
  status 204, no data (null) and no error.
\<close>

theorem no_content_result:
  assumes "build_request env endpoint options = Inr (url, init)"
      and "fetch env url init = Inr r"
      and "resp_status r = 204"
      and "\<not> isJson r"
  shows "apiRequest env endpoint options = Inr \<lparr>data = JNull, error = JUndefined, status = 204\<rparr>
         \<and> \<not> present JNull \<and> \<not> present JUndefined"
proof -
  have "parse_data r = Inr JNull"
    using assms(3,4) by (simp add: parse_data_def)
  then have "apiRequest env endpoint options = Inr (structured r JNull)"
    using assms(1,2) by (simp add: apiRequest_sent send_response)
  then show ?thesis
    using assms(3) by (simp add: structured_def ok_def present_def)
qed

text \<open>A 204 without a content type.\<close>

theorem no_content_result_witness:
  "resp_status no_content_204 = 204 \<and> \<not> isJson no_content_204
   \<and> apiRequest (stub (Inr no_content_204)) ''/templates/7'' get_options =
       Inr \<lparr>data = JNull, error = JUndefined, status = 204\<rparr>"
proof -
  have s: "resp_status no_content_204 = 204" by (simp add: no_content_204_def)
  have j: "\<not> isJson no_content_204" by (simp add: isJson_def no_content_204_def)
  show ?thesis
    using no_content_result [OF build_request_get fetch_stub s j, of "''/templates/7''"] s j
    by simp
qed

text \<open>
  A 204 response that declares a JSON content type: the code asks for \<^verbatim>\<open>json()\<close> first,
  which throws on the empty body, and the result is a failure with status 0.
\<close>

theorem no_content_result_counterexample:
  "resp_status no_content_json_204 = 204
   \<and> apiRequest (stub (Inr no_content_json_204)) ''/templates/7'' get_options =
       Inr \<lparr>data = JUndefined, error = JStr ''Unexpected end of JSON input'', status = 0\<rparr>
   \<and> present (JStr ''Unexpected end of JSON input'')"
  by (simp add: apiRequest_def build_request_get send_def fetch_stub parse_data_def isJson_def
        network_error_def present_def no_content_json_204_def)

section \<open>The request: properties\<close>

lemma map_of_assignments:
  "map_of (foldl (\<lambda>acc kv. set_prop (fst kv) (snd kv) acc) obj es)
     = map_of obj ++ map_of (rev es)"
proof (induction es arbitrary: obj)
  case Nil
  show ?case by simp
next
  case (Cons x xs)
  show ?case
    by (simp add: Cons.IH map_of_set_prop fun_eq_iff map_add_def split: option.splits)
qed

lemma map_of_spread: "map_of (spread obj src) = map_of obj ++ map_of (rev (Object_entries src))"
  by (simp add: spread_def map_of_assignments)

lemma map_of_rev_distinct: "distinct (map fst xs) \<Longrightarrow> map_of (rev xs) = map_of xs"
proof (induction xs)
  case Nil
  show ?case by simp
next
  case (Cons x xs)
  then have "fst x \<notin> dom (map_of xs)"
    by (simp add: dom_map_of_conv_image_fst)
  then have "map_of xs (fst x) = None"
    by blast
  then show ?case
    using Cons by (cases x) (auto simp: fun_eq_iff map_add_def split: option.splits)
qed

lemma spread_default_lookup:
  "distinct (map fst hs) \<Longrightarrow>
     map_of (spread [(''Accept'', ''application/json'')] hs) k =
       (case map_of hs k of
          Some v \<Rightarrow> Some v
        | None \<Rightarrow> if k = ''Accept'' then Some ''application/json'' else None)"
  by (simp add: map_of_spread map_of_rev_distinct distinct_Object_entries map_of_Object_entries
        map_add_def split: option.splits)

lemma build_request_Inr:
  assumes "build_request env endpoint options = Inr (url, init)"
  shows "url = build_url (API_BASE_URL env) endpoint (params options)"
    and "init_method init = request_method options"
    and "init_headers init = request_headers (headers options) (body options)"
    and "request_body_of env (body options) = Inr (init_body init)"
  using assms by (auto simp: build_request_def Let_def split: sum.splits)

text \<open>
  Claim C7, with the body rule as the code has it. In the request that is sent, the Accept
  header is the caller's when the caller gave one and application/json otherwise. The
  Content-Type is set last: it is application/json, whatever the caller gave, when the body
  is truthy and not a form, and the body sent is its JSON text. When the body is a form, it
  is sent as it is and the Content-Type is left as the caller gave it, absent when the
  caller gave none; the same holds, with no body sent, when the body is missing or falsy.
\<close>

theorem header_composition:
  assumes "build_request env endpoint options = Inr (url, init)"
      and "distinct (map fst (default_headers (headers options)))"
  shows "map_of (init_headers init) ''Accept'' =
           Some (case map_of (default_headers (headers options)) ''Accept'' of
                   None \<Rightarrow> ''application/json'' | Some v \<Rightarrow> v)
         \<and> (truthy (body options) \<and> \<not> instanceof_FormData (body options) \<longrightarrow>
              map_of (init_headers init) ''Content-Type'' = Some ''application/json''
              \<and> (\<exists>s. JSON_stringify env (body options) = Inr s \<and> init_body init = Some (TextBody s)))
         \<and> (\<forall>es. body options = JFormData es \<longrightarrow>
              map_of (init_headers init) ''Content-Type''
                = map_of (default_headers (headers options)) ''Content-Type''
              \<and> init_body init = Some (FormBody es))
         \<and> (\<not> truthy (body options) \<longrightarrow>
              map_of (init_headers init) ''Content-Type''
                = map_of (default_headers (headers options)) ''Content-Type''
              \<and> init_body init = None)"
proof -
  note b = build_request_Inr [OF assms(1)]
  note look = spread_default_lookup [OF assms(2)]
  have accept: "map_of (init_headers init) ''Accept'' =
           Some (case map_of (default_headers (headers options)) ''Accept'' of
                   None \<Rightarrow> ''application/json'' | Some v \<Rightarrow> v)"
    by (simp add: b(3) request_headers_def Let_def map_of_set_prop look split: option.splits)
  have json: "map_of (init_headers init) ''Content-Type'' = Some ''application/json''
              \<and> (\<exists>s. JSON_stringify env (body options) = Inr s \<and> init_body init = Some (TextBody s))"
    if "truthy (body options)" "\<not> instanceof_FormData (body options)"
    using that b(4)
    by (cases "body options")
       (auto simp: b(3) request_headers_def Let_def map_of_set_prop request_body_of_def split: sum.splits)
  have form: "map_of (init_headers init) ''Content-Type''
                = map_of (default_headers (headers options)) ''Content-Type''
              \<and> init_body init = Some (FormBody es)"
    if "body options = JFormData es" for es
    using that b(4)
    by (simp add: b(3) request_headers_def Let_def look request_body_of_def split: option.splits)
  have none: "map_of (init_headers init) ''Content-Type''
                = map_of (default_headers (headers options)) ''Content-Type''
              \<and> init_body init = None"
    if "\<not> truthy (body options)"
    using that b(4)
    by (simp add: b(3) request_headers_def Let_def look request_body_of_def split: option.splits)
  show ?thesis
    using accept json form none by blast
qed

text \<open>
  A schedule posted with headers of the caller: the caller's Accept stays, the caller's
  Content-Type is replaced. A form posted with a Content-Type of the caller, and a GET
  without a body: the Content-Type is as the caller gave it.
\<close>

theorem header_composition_witness:
  "build_request (stub_encoding (Inl NonError) ''{}'') ''/schedules'' schedule_post =
     Inr (''http://localhost:8080/tdg/api/schedules'',
          \<lparr>init_method = POST,
           init_headers = [(''Accept'', ''text/csv''), (''Content-Type'', ''application/json'')],
           init_credentials = ''include'', init_body = Some (TextBody ''{}'')\<rparr>)
   \<and> distinct (map fst (default_headers (headers schedule_post)))
   \<and> truthy (body schedule_post) \<and> \<not> instanceof_FormData (body schedule_post)
   \<and> map_of [(''Accept'', ''text/csv''), (''Content-Type'', ''application/json'')] ''Accept''
       = Some ''text/csv''
   \<and> map_of [(''Accept'', ''text/csv''), (''Content-Type'', ''application/json'')] ''Content-Type''
       = Some ''application/json''
   \<and> build_request (stub (Inl NonError)) ''/pdf/analyze'' form_post =
       Inr (''http://localhost:8080/tdg/api/pdf/analyze'',
            \<lparr>init_method = POST,
             init_headers = [(''Accept'', ''application/json''), (''Content-Type'', ''application/json'')],
             init_credentials = ''include'',
             init_body = Some (FormBody [(''file'', FFile (File ''a.pdf'' ''%PDF''))])\<rparr>)
   \<and> distinct (map fst (default_headers (headers form_post)))
   \<and> body form_post = JFormData [(''file'', FFile (File ''a.pdf'' ''%PDF''))]
   \<and> map_of [(''Accept'', ''application/json''), (''Content-Type'', ''application/json'')] ''Content-Type''
       = map_of (default_headers (headers form_post)) ''Content-Type''
   \<and> build_request (stub (Inl NonError)) ''/templates'' get_options =
       Inr (''http://localhost:8080/tdg/api/templates'',
            \<lparr>init_method = GET, init_headers = [(''Accept'', ''application/json'')],
             init_credentials = ''include'', init_body = None\<rparr>)
   \<and> distinct (map fst (default_headers (headers get_options)))
   \<and> \<not> truthy (body get_options)
   \<and> map_of [(''Accept'', ''application/json'')] ''Content-Type''
       = map_of (default_headers (headers get_options)) ''Content-Type''"
proof -
  have b1: "build_request (stub_encoding (Inl NonError) ''{}'') ''/schedules'' schedule_post =
     Inr (''http://localhost:8080/tdg/api/schedules'',
          \<lparr>init_method = POST,
           init_headers = [(''Accept'', ''text/csv''), (''Content-Type'', ''application/json'')],
           init_credentials = ''include'', init_body = Some (TextBody ''{}'')\<rparr>)"
    by (simp add: build_request_def request_headers_def request_body_of_def spread_def
          default_headers_def build_url_def API_BASE_URL_def stub_encoding_def schedule_post_def
          entries_eval)
  have d1: "distinct (map fst (default_headers (headers schedule_post)))"
    by (simp add: default_headers_def schedule_post_def)
  have b2: "build_request (stub (Inl NonError)) ''/pdf/analyze'' form_post =
       Inr (''http://localhost:8080/tdg/api/pdf/analyze'',
            \<lparr>init_method = POST,
             init_headers = [(''Accept'', ''application/json''), (''Content-Type'', ''application/json'')],
             init_credentials = ''include'',
             init_body = Some (FormBody [(''file'', FFile (File ''a.pdf'' ''%PDF''))])\<rparr>)"
    by (simp add: build_request_def request_headers_def request_body_of_def spread_def
          default_headers_def build_url_def API_BASE_URL_def stub_def form_post_def entries_eval)
  have d2: "distinct (map fst (default_headers (headers form_post)))"
    by (simp add: default_headers_def form_post_def)
  have b3: "build_request (stub (Inl NonError)) ''/templates'' get_options =
       Inr (''http://localhost:8080/tdg/api/templates'',
            \<lparr>init_method = GET, init_headers = [(''Accept'', ''application/json'')],
             init_credentials = ''include'', init_body = None\<rparr>)"
    by (simp add: build_request_get)
  have d3: "distinct (map fst (default_headers (headers get_options)))"
    by (simp add: default_headers_def get_options_def)
  have t1: "truthy (body schedule_post) \<and> \<not> instanceof_FormData (body schedule_post)"
    by (simp add: schedule_post_def)
  have t2: "body form_post = JFormData [(''file'', FFile (File ''a.pdf'' ''%PDF''))]"
    by (simp add: form_post_def)
  have t3: "\<not> truthy (body get_options)"
    by (simp add: get_options_def)
  show ?thesis
    using header_composition [OF b1 d1] header_composition [OF b2 d2] header_composition [OF b3 d3]
      b1 d1 b2 d2 b3 d3 t1 t2 t3
    by simp
qed

text \<open>
  The body \<^verbatim>\<open>false\<close> is present and not a form, and the request has no Content-Type and
  no body. A form sent with a Content-Type of the caller keeps that header, which does not
  describe a form.
\<close>

theorem header_composition_counterexample:
  "body false_post = JBool False
   \<and> build_request (stub (Inl NonError)) ''/flags'' false_post =
       Inr (''http://localhost:8080/tdg/api/flags'',
            \<lparr>init_method = POST, init_headers = [(''Accept'', ''application/json'')],
             init_credentials = ''include'', init_body = None\<rparr>)
   \<and> build_request (stub (Inl NonError)) ''/pdf/analyze'' form_post =
       Inr (''http://localhost:8080/tdg/api/pdf/analyze'',
            \<lparr>init_method = POST,
             init_headers = [(''Accept'', ''application/json''), (''Content-Type'', ''application/json'')],
             init_credentials = ''include'',
             init_body = Some (FormBody [(''file'', FFile (File ''a.pdf'' ''%PDF''))])\<rparr>)"
  by (simp add: build_request_def request_headers_def request_body_of_def spread_def
        default_headers_def build_url_def API_BASE_URL_def stub_def false_post_def form_post_def
        entries_eval)

lemma spread_no_content_type:
  assumes "map_of hs ''Content-Type'' = None"
  shows "map_of (spread [(''Accept'', ''application/json'')] hs) ''Content-Type'' = None"
proof -
  have "map_of (rev (Object_entries hs)) ''Content-Type'' = None"
    using assms by (simp add: map_of_eq_None_iff set_Object_entries)
  then show ?thesis
    by (simp add: map_of_spread map_add_def)
qed

text \<open>
  Claim C10. With the empty string, the number 0 or false as body, the request has no body,
  its headers are the default Accept and the caller's headers and nothing else (so no
  Content-Type unless the caller gave one), and both the request and the outcome of the
  call are those of the same call without a body.
\<close>

theorem falsy_body_as_no_body:
  assumes "b = JStr [] \<or> b = JNum 0 \<or> b = JBool False"
  shows "build_request env endpoint (options\<lparr>body := b\<rparr>) =
           Inr (build_url (API_BASE_URL env) endpoint (params options),
                \<lparr>init_method = request_method options,
                 init_headers = spread [(''Accept'', ''application/json'')]
                                  (default_headers (headers options)),
                 init_credentials = ''include'', init_body = None\<rparr>)
         \<and> (map_of (default_headers (headers options)) ''Content-Type'' = None \<longrightarrow>
              map_of (spread [(''Accept'', ''application/json'')] (default_headers (headers options)))
                ''Content-Type'' = None)
         \<and> build_request env endpoint (options\<lparr>body := b\<rparr>)
             = build_request env endpoint (options\<lparr>body := JUndefined\<rparr>)
         \<and> apiRequest env endpoint (options\<lparr>body := b\<rparr>)
             = apiRequest env endpoint (options\<lparr>body := JUndefined\<rparr>)"
proof -
  have falsy: "\<not> truthy (body (options\<lparr>body := b\<rparr>))"
    using assms by auto
  have undef: "\<not> truthy (body (options\<lparr>body := JUndefined\<rparr>))"
    by simp
  have same: "build_request env endpoint (options\<lparr>body := b\<rparr>)
                = build_request env endpoint (options\<lparr>body := JUndefined\<rparr>)"
    by (simp add: build_request_no_body [OF falsy] build_request_no_body [OF undef])
  show ?thesis
    using build_request_no_body [OF falsy, of env endpoint] same
    by (simp add: apiRequest_def spread_no_content_type)
qed

text \<open>
  The number 0 posted as body.
\<close>

theorem falsy_body_as_no_body_witness:
  "build_request (stub (Inl NonError)) ''/flags'' (false_post\<lparr>body := JNum 0\<rparr>) =
     Inr (''http://localhost:8080/tdg/api/flags'',
          \<lparr>init_method = POST, init_headers = [(''Accept'', ''application/json'')],
           init_credentials = ''include'', init_body = None\<rparr>)
   \<and> apiRequest (stub (Inl NonError)) ''/flags'' (false_post\<lparr>body := JNum 0\<rparr>)
       = apiRequest (stub (Inl NonError)) ''/flags'' (false_post\<lparr>body := JUndefined\<rparr>)"
proof -
  have z: "JNum 0 = JStr [] \<or> JNum 0 = JNum 0 \<or> JNum 0 = JBool False"
    by simp
  show ?thesis
    using falsy_body_as_no_body [OF z, of "stub (Inl NonError)" "''/flags''" false_post]
    by (simp add: false_post_def build_url_def API_BASE_URL_def stub_def spread_def
          default_headers_def Object_entries_Nil)
qed

section \<open>Upload and download: properties\<close>

lemma foldl_append_field:
  "foldl (\<lambda>fd kv. fd @ [(fst kv, FString (snd kv))]) acc kvs
     = acc @ map (\<lambda>kv. (fst kv, FString (snd kv))) kvs"
  by (induction kvs arbitrary: acc) simp_all

lemma send_unfolded:
  "send env url init =
     (case fetch env url init of
        Inl e \<Rightarrow>
          \<lparr>data = JUndefined,
           error = JStr (case e of ErrorObj m \<Rightarrow> m | NonError \<Rightarrow> ''Network error''),
           status = 0\<rparr>
      | Inr r \<Rightarrow>
          (case parse_data r of
             Inl e \<Rightarrow>
               \<lparr>data = JUndefined,
                error = JStr (case e of ErrorObj m \<Rightarrow> m | NonError \<Rightarrow> ''Network error''),
                status = 0\<rparr>
           | Inr d \<Rightarrow>
               \<lparr>data = (if 200 \<le> resp_status r \<and> resp_status r \<le> 299 then d
                        else JUndefined),
                error = (if 200 \<le> resp_status r \<and> resp_status r \<le> 299 then JUndefined
                         else if truthy (get_message d) then get_message d
                         else JStr (resp_statusText r)),
                status = resp_status r\<rparr>))"
proof (cases "fetch env url init")
  case (Inl e)
  then show ?thesis by (simp add: send_def network_error_def)
next
  case (Inr r)
  then show ?thesis
    by (cases "parse_data r")
       (simp_all add: send_def network_error_def structured_def ok_def js_or_def)
qed

text \<open>
  Claim C8. The form built for a file and no additional fields has exactly one entry, the
  file, under the name "file" when the caller names no field and under the caller's name
  otherwise. With additional fields, they follow the file, each as a text entry under its
  key, so the form holds the file and every one of the fields. The call makes one request:
  \<^verbatim>\<open>fetch\<close> is called with the endpoint after the base URL and with the method POST, the
  form as body, unmodified, and no header but the default Accept. What the call returns is
  the gateway's normalisation of what that \<^verbatim>\<open>fetch\<close> gives, and no exception reaches the
  caller.
\<close>

theorem upload_form_and_request:
  "upload_form f None None = [(''file'', FFile f)]
   \<and> upload_form f (Some fieldName) None = [(fieldName, FFile f)]
   \<and> upload_form f None (Some kvs)
       = (''file'', FFile f) # map (\<lambda>kv. (fst kv, FString (snd kv))) (Object_entries kvs)
   \<and> upload_form f (Some fieldName) (Some kvs)
       = (fieldName, FFile f) # map (\<lambda>kv. (fst kv, FString (snd kv))) (Object_entries kvs)
   \<and> (\<lambda>kv. (fst kv, FString (snd kv))) ` set kvs \<subseteq> set (upload_form f name (Some kvs))
   \<and> uploadFile env endpoint f name additionalData =
       Inr (case fetch env (API_BASE_URL env @ endpoint)
                   \<lparr>init_method = POST, init_headers = [(''Accept'', ''application/json'')],
                    init_credentials = ''include'',
                    init_body = Some (FormBody (upload_form f name additionalData))\<rparr> of
              Inl e \<Rightarrow>
                \<lparr>data = JUndefined,
                 error = JStr (case e of ErrorObj m \<Rightarrow> m | NonError \<Rightarrow> ''Network error''),
                 status = 0\<rparr>
            | Inr r \<Rightarrow>
                (case parse_data r of
                   Inl e \<Rightarrow>
                     \<lparr>data = JUndefined,
                      error = JStr (case e of ErrorObj m \<Rightarrow> m | NonError \<Rightarrow> ''Network error''),
                      status = 0\<rparr>
                 | Inr d \<Rightarrow>
                     \<lparr>data = (if 200 \<le> resp_status r \<and> resp_status r \<le> 299 then d
                              else JUndefined),
                      error = (if 200 \<le> resp_status r \<and> resp_status r \<le> 299 then JUndefined
                               else if truthy (get_message d) then get_message d
                               else JStr (resp_statusText r)),
                      status = resp_status r\<rparr>))"
proof -
  have "build_request env endpoint
          \<lparr>request_method = POST, headers = None,
           body = JFormData (upload_form f name additionalData), params = None\<rparr>
        = Inr (API_BASE_URL env @ endpoint,
               \<lparr>init_method = POST, init_headers = [(''Accept'', ''application/json'')],
                init_credentials = ''include'',
                init_body = Some (FormBody (upload_form f name additionalData))\<rparr>)"
    by (simp add: build_request_def request_headers_def request_body_of_def spread_def
          default_headers_def build_url_def Object_entries_Nil)
  then have "uploadFile env endpoint f name additionalData =
       Inr (send env (API_BASE_URL env @ endpoint)
              \<lparr>init_method = POST, init_headers = [(''Accept'', ''application/json'')],
               init_credentials = ''include'',
               init_body = Some (FormBody (upload_form f name additionalData))\<rparr>)"
    by (simp add: uploadFile_def apiRequest_def)
  then have sent: "uploadFile env endpoint f name additionalData =
       Inr (case fetch env (API_BASE_URL env @ endpoint)
                   \<lparr>init_method = POST, init_headers = [(''Accept'', ''application/json'')],
                    init_credentials = ''include'',
                    init_body = Some (FormBody (upload_form f name additionalData))\<rparr> of
              Inl e \<Rightarrow>
                \<lparr>data = JUndefined,
                 error = JStr (case e of ErrorObj m \<Rightarrow> m | NonError \<Rightarrow> ''Network error''),
                 status = 0\<rparr>
            | Inr r \<Rightarrow>
                (case parse_data r of
                   Inl e \<Rightarrow>
                     \<lparr>data = JUndefined,
                      error = JStr (case e of ErrorObj m \<Rightarrow> m | NonError \<Rightarrow> ''Network error''),
                      status = 0\<rparr>
                 | Inr d \<Rightarrow>
                     \<lparr>data = (if 200 \<le> resp_status r \<and> resp_status r \<le> 299 then d
                              else JUndefined),
                      error = (if 200 \<le> resp_status r \<and> resp_status r \<le> 299 then JUndefined
                               else if truthy (get_message d) then get_message d
                               else JStr (resp_statusText r)),
                      status = resp_status r\<rparr>))"
    by (simp only: send_unfolded)
  have "set (upload_form f name (Some kvs))
          = insert (case name of None \<Rightarrow> ''file'' | Some n \<Rightarrow> n, FFile f)
              ((\<lambda>kv. (fst kv, FString (snd kv))) ` set kvs)"
    by (simp add: upload_form_def foldl_append_field set_Object_entries)
  then have all: "(\<lambda>kv. (fst kv, FString (snd kv))) ` set kvs \<subseteq> set (upload_form f name (Some kvs))"
    by blast
  have forms: "upload_form f None None = [(''file'', FFile f)]
   \<and> upload_form f (Some fieldName) None = [(fieldName, FFile f)]
   \<and> upload_form f None (Some kvs)
       = (''file'', FFile f) # map (\<lambda>kv. (fst kv, FString (snd kv))) (Object_entries kvs)
   \<and> upload_form f (Some fieldName) (Some kvs)
       = (fieldName, FFile f) # map (\<lambda>kv. (fst kv, FString (snd kv))) (Object_entries kvs)"
    by (simp add: upload_form_def foldl_append_field)
  show ?thesis
    using forms all sent by blast
qed

text \<open>
  A collaborator that answers the POST of exactly the expected form to /pdf/analyze and
  nothing else: the upload of a PDF under the default name, and under the name doc with
  the additional field k = "v", both get its answer; the same request as a GET gets none.
\<close>

theorem upload_form_and_request_witness:
  "upload_form (File ''a.pdf'' ''%PDF'') None None = [(''file'', FFile (File ''a.pdf'' ''%PDF''))]
   \<and> uploadFile
         (expecting ''http://localhost:8080/tdg/api/pdf/analyze''
            \<lparr>init_method = POST, init_headers = [(''Accept'', ''application/json'')],
             init_credentials = ''include'',
             init_body = Some (FormBody [(''file'', FFile (File ''a.pdf'' ''%PDF''))])\<rparr>
            analysed_200)
         ''/pdf/analyze'' (File ''a.pdf'' ''%PDF'') None None
       = Inr \<lparr>data = JObj [(''name'', JStr ''a'')], error = JUndefined, status = 200\<rparr>
   \<and> upload_form (File ''a.pdf'' ''%PDF'') (Some ''doc'') (Some [(''k'', ''v'')])
       = [(''doc'', FFile (File ''a.pdf'' ''%PDF'')), (''k'', FString ''v'')]
   \<and> uploadFile
         (expecting ''http://localhost:8080/tdg/api/pdf/analyze''
            \<lparr>init_method = POST, init_headers = [(''Accept'', ''application/json'')],
             init_credentials = ''include'',
             init_body = Some (FormBody [(''doc'', FFile (File ''a.pdf'' ''%PDF'')),
                                         (''k'', FString ''v'')])\<rparr>
            analysed_200)
         ''/pdf/analyze'' (File ''a.pdf'' ''%PDF'') (Some ''doc'') (Some [(''k'', ''v'')])
       = Inr \<lparr>data = JObj [(''name'', JStr ''a'')], error = JUndefined, status = 200\<rparr>
   \<and> fetch
         (expecting ''http://localhost:8080/tdg/api/pdf/analyze''
            \<lparr>init_method = POST, init_headers = [(''Accept'', ''application/json'')],
             init_credentials = ''include'',
             init_body = Some (FormBody [(''file'', FFile (File ''a.pdf'' ''%PDF''))])\<rparr>
            analysed_200)
         ''http://localhost:8080/tdg/api/pdf/analyze''
         \<lparr>init_method = GET, init_headers = [(''Accept'', ''application/json'')],
          init_credentials = ''include'',
          init_body = Some (FormBody [(''file'', FFile (File ''a.pdf'' ''%PDF''))])\<rparr>
       = Inl (ErrorObj ''unexpected request'')"
proof -
  let ?f = "File ''a.pdf'' ''%PDF''"
  let ?init1 = "\<lparr>init_method = POST, init_headers = [(''Accept'', ''application/json'')],
             init_credentials = ''include'',
             init_body = Some (FormBody [(''file'', FFile ?f)])\<rparr>"
  let ?init2 = "\<lparr>init_method = POST, init_headers = [(''Accept'', ''application/json'')],
             init_credentials = ''include'',
             init_body = Some (FormBody [(''doc'', FFile ?f), (''k'', FString ''v'')])\<rparr>"
  let ?url = "''http://localhost:8080/tdg/api/pdf/analyze''"
  have form1: "upload_form ?f None None = [(''file'', FFile ?f)]"
    using upload_form_and_request [of ?f] by blast
  have form2: "upload_form ?f (Some ''doc'') (Some [(''k'', ''v'')])
                 = [(''doc'', FFile ?f), (''k'', FString ''v'')]"
    using upload_form_and_request [of ?f "''doc''" "[(''k'', ''v'')]"]
    by (simp add: entries_eval)
  have p: "parse_data analysed_200 = Inr (JObj [(''name'', JStr ''a'')])"
    by (simp add: parse_data_def isJson_def analysed_200_def)
  have s: "resp_status analysed_200 = 200"
    by (simp add: analysed_200_def)
  have base1: "API_BASE_URL (expecting ?url ?init1 analysed_200) = ''http://localhost:8080/tdg/api''"
    by (simp add: API_BASE_URL_def expecting_def)
  have base2: "API_BASE_URL (expecting ?url ?init2 analysed_200) = ''http://localhost:8080/tdg/api''"
    by (simp add: API_BASE_URL_def expecting_def)
  have f1: "fetch (expecting ?url ?init1 analysed_200) ?url ?init1 = Inr analysed_200"
    by (simp add: expecting_def)
  have f2: "fetch (expecting ?url ?init2 analysed_200) ?url ?init2 = Inr analysed_200"
    by (simp add: expecting_def)
  have up1: "uploadFile (expecting ?url ?init1 analysed_200) ''/pdf/analyze'' ?f None None
       = Inr \<lparr>data = JObj [(''name'', JStr ''a'')], error = JUndefined, status = 200\<rparr>"
    using upload_form_and_request
            [of ?f _ _ None "expecting ?url ?init1 analysed_200" "''/pdf/analyze''" None]
    by (simp add: base1 form1 f1 p s)
  have up2: "uploadFile (expecting ?url ?init2 analysed_200) ''/pdf/analyze'' ?f (Some ''doc'')
               (Some [(''k'', ''v'')])
       = Inr \<lparr>data = JObj [(''name'', JStr ''a'')], error = JUndefined, status = 200\<rparr>"
    using upload_form_and_request
            [of ?f _ _ "Some ''doc''" "expecting ?url ?init2 analysed_200" "''/pdf/analyze''"
                "Some [(''k'', ''v'')]"]
    by (simp add: base2 form2 f2 p s)
  have refused: "fetch (expecting ?url ?init1 analysed_200) ?url
         \<lparr>init_method = GET, init_headers = [(''Accept'', ''application/json'')],
          init_credentials = ''include'', init_body = Some (FormBody [(''file'', FFile ?f)])\<rparr>
       = Inl (ErrorObj ''unexpected request'')"
    by (simp add: expecting_def)
  show ?thesis
    using form1 form2 up1 up2 refused by simp
qed






end
